theory Spec2Isabelle
  imports Complex_Main "HOL-Library.AList"
begin

section \<open>Raster cells and numpy arrays\<close>

text \<open>
  The raster tools read every band with \<^verbatim>\<open>src.read(b).astype("float32")\<close> and mark
  missing cells with \<^verbatim>\<open>np.nan\<close>. A cell is modelled as a finite number or NaN; the
  finite numbers are the reals, so rounding, overflow and infinite cell values are outside
  the model. NaN follows IEEE 754: it is contagious in arithmetic, and every comparison
  with it is false except \<^verbatim>\<open>!=\<close>, which is true.

  A numpy array is its row-major buffer, a list of cells; the element-wise operations and
  boolean-mask indexing of the source do not depend on the shape. All bands of one dataset
  have the same shape, so the arrays that meet in one operation have the same length.
\<close>

datatype fl = Val real | NaN

fun isnan :: "fl \<Rightarrow> bool" where
  "isnan NaN = True"
| "isnan (Val _) = False"

fun fl_add :: "fl \<Rightarrow> fl \<Rightarrow> fl" where
  "fl_add (Val a) (Val b) = Val (a + b)"
| "fl_add _ _ = NaN"

fun fl_sub :: "fl \<Rightarrow> fl \<Rightarrow> fl" where
  "fl_sub (Val a) (Val b) = Val (a - b)"
| "fl_sub _ _ = NaN"

fun fl_mul :: "fl \<Rightarrow> fl \<Rightarrow> fl" where
  "fl_mul (Val a) (Val b) = Val (a * b)"
| "fl_mul _ _ = NaN"

text \<open>\<^verbatim>\<open>x == y\<close> and \<^verbatim>\<open>x != y\<close> on cells.\<close>

fun fl_eq :: "fl \<Rightarrow> fl \<Rightarrow> bool" where
  "fl_eq (Val a) (Val b) = (a = b)"
| "fl_eq _ _ = False"

definition fl_ne :: "fl \<Rightarrow> fl \<Rightarrow> bool" where
  "fl_ne x y = (\<not> fl_eq x y)"

text \<open>
  Division. numpy evaluates a division by zero to an infinity (or, for 0/0, to NaN) and
  emits a RuntimeWarning; both leave the finite model, so the model reports a zero
  divisor as a fault. A NaN operand gives NaN quietly.
\<close>

datatype fault = ZeroDivide

fun fl_div :: "fl \<Rightarrow> fl \<Rightarrow> fault + fl" where
  "fl_div (Val a) (Val b) = (if b = 0 then Inl ZeroDivide else Inr (Val (a / b)))"
| "fl_div _ _ = Inr NaN"

fun collect :: "('e + 'a) list \<Rightarrow> 'e + 'a list" where
  "collect [] = Inr []"
| "collect (x # xs) =
     (case x of
        Inl e \<Rightarrow> Inl e
      | Inr v \<Rightarrow> (case collect xs of Inl e \<Rightarrow> Inl e | Inr vs \<Rightarrow> Inr (v # vs)))"

definition np_add :: "fl list \<Rightarrow> fl list \<Rightarrow> fl list" where
  "np_add xs ys = map2 fl_add xs ys"

definition np_sub :: "fl list \<Rightarrow> fl list \<Rightarrow> fl list" where
  "np_sub xs ys = map2 fl_sub xs ys"

definition np_divide :: "fl list \<Rightarrow> fl list \<Rightarrow> fault + fl list" where
  "np_divide xs ys = collect (map2 fl_div xs ys)"

text \<open>A Python float scalar combined with an array: \<^verbatim>\<open>c * a\<close>, \<^verbatim>\<open>a + c\<close>.\<close>

definition np_scale :: "real \<Rightarrow> fl list \<Rightarrow> fl list" where
  "np_scale c xs = map (fl_mul (Val c)) xs"

definition np_shift :: "fl list \<Rightarrow> real \<Rightarrow> fl list" where
  "np_shift xs c = map (\<lambda>x. fl_add x (Val c)) xs"

text \<open>\<^verbatim>\<open>a != 0\<close>, \<^verbatim>\<open>np.isnan(a)\<close>, \<^verbatim>\<open>~m\<close> and \<^verbatim>\<open>np.full_like(a, v)\<close>.\<close>

definition np_ne0 :: "fl list \<Rightarrow> bool list" where
  "np_ne0 xs = map (\<lambda>x. fl_ne x (Val 0)) xs"

definition np_isnan :: "fl list \<Rightarrow> bool list" where
  "np_isnan xs = map isnan xs"

definition np_not :: "bool list \<Rightarrow> bool list" where
  "np_not m = map Not m"

definition np_full_like :: "fl list \<Rightarrow> fl \<Rightarrow> fl list" where
  "np_full_like xs v = replicate (length xs) v"

text \<open>
  Boolean-mask indexing. \<^verbatim>\<open>a[m]\<close> selects the cells where the mask is true, in order;
  \<^verbatim>\<open>a[m] = vs\<close> writes the values \<open>vs\<close> to those cells, in order, and leaves the
  others; \<^verbatim>\<open>a[m] = c\<close> writes the scalar \<open>c\<close> to them. The values written in the source
  are always selected with the same mask, so there are exactly as many as the mask has
  true cells; \<open>mask_set\<close> leaves the rest of the target unchanged when they run out.
\<close>

definition mask_get :: "bool list \<Rightarrow> 'a list \<Rightarrow> 'a list" where
  "mask_get m xs = map snd (filter fst (zip m xs))"

fun mask_set :: "bool list \<Rightarrow> 'a list \<Rightarrow> 'a list \<Rightarrow> 'a list" where
  "mask_set (b # bs) (t # ts) vs =
     (if b then (case vs of [] \<Rightarrow> t # ts | v # vs' \<Rightarrow> v # mask_set bs ts vs')
      else t # mask_set bs ts vs)"
| "mask_set _ ts _ = ts"

definition mask_fill :: "bool list \<Rightarrow> 'a list \<Rightarrow> 'a \<Rightarrow> 'a list" where
  "mask_fill m xs c = map2 (\<lambda>b x. if b then c else x) m xs"

section \<open>Spectral indices\<close>

text \<open>
  \<^verbatim>\<open>if nodata is not None: band[band == nodata] = np.nan\<close>: the normalisation of a band
  against its declared sentinel (\<open>None\<close> when the dataset declares none).
\<close>

definition np_eq_scalar :: "fl list \<Rightarrow> fl \<Rightarrow> bool list" where
  "np_eq_scalar xs c = map (\<lambda>x. fl_eq x c) xs"

definition set_nodata :: "fl list \<Rightarrow> fl option \<Rightarrow> fl list" where
  "set_nodata band nodata =
     (case nodata of
        None \<Rightarrow> band
      | Some nd \<Rightarrow> mask_fill (np_eq_scalar band nd) band NaN)"

text \<open>The index arrays, as each tool computes them from the bands it has read.\<close>

definition ndvi_index :: "fl list \<Rightarrow> fl option \<Rightarrow> fl list \<Rightarrow> fl option \<Rightarrow> fault + fl list" where
  "ndvi_index red0 red_nodata nir0 nir_nodata =
     (let red = set_nodata red0 red_nodata;
          nir = set_nodata nir0 nir_nodata;
          denominator = np_add nir red;
          ndvi = np_full_like denominator NaN;
          valid_pixels = np_ne0 denominator
      in case np_divide (np_sub (mask_get valid_pixels nir) (mask_get valid_pixels red))
                (mask_get valid_pixels denominator) of
           Inl e \<Rightarrow> Inl e
         | Inr q \<Rightarrow> Inr (mask_set valid_pixels ndvi q))"

definition np_times :: "fl list \<Rightarrow> real \<Rightarrow> fl list" where
  "np_times xs c = map (\<lambda>x. fl_mul x (Val c)) xs"

definition evi_index ::
  "real \<Rightarrow> real \<Rightarrow> real \<Rightarrow> real \<Rightarrow>
   fl list \<Rightarrow> fl option \<Rightarrow> fl list \<Rightarrow> fl option \<Rightarrow> fl list \<Rightarrow> fl option \<Rightarrow> fault + fl list" where
  "evi_index G C1 C2 L red0 red_nodata nir0 nir_nodata blue0 blue_nodata =
     (let red = set_nodata red0 red_nodata;
          nir = set_nodata nir0 nir_nodata;
          blue = set_nodata blue0 blue_nodata;
          denominator = np_shift (np_sub (np_add nir (np_scale C1 red)) (np_scale C2 blue)) L;
          evi = np_full_like denominator NaN;
          valid_pixels = np_ne0 denominator
      in case np_divide
                (np_scale G (np_sub (mask_get valid_pixels nir) (mask_get valid_pixels red)))
                (mask_get valid_pixels denominator) of
           Inl e \<Rightarrow> Inl e
         | Inr q \<Rightarrow> Inr (mask_set valid_pixels evi q))"

definition savi_index ::
  "real \<Rightarrow> fl list \<Rightarrow> fl option \<Rightarrow> fl list \<Rightarrow> fl option \<Rightarrow> fault + fl list" where
  "savi_index L red0 red_nodata nir0 nir_nodata =
     (let red = set_nodata red0 red_nodata;
          nir = set_nodata nir0 nir_nodata;
          denominator = np_shift (np_add nir red) L;
          savi = np_full_like denominator NaN;
          valid_pixels = np_ne0 denominator
      in case np_divide (np_sub (mask_get valid_pixels nir) (mask_get valid_pixels red))
                (mask_get valid_pixels denominator) of
           Inl e \<Rightarrow> Inl e
         | Inr q \<Rightarrow> Inr (mask_set valid_pixels savi (np_times q (1 + L))))"

definition ndwi_index :: "fl list \<Rightarrow> fl option \<Rightarrow> fl list \<Rightarrow> fl option \<Rightarrow> fault + fl list" where
  "ndwi_index green0 green_nodata nir0 nir_nodata =
     (let green = set_nodata green0 green_nodata;
          nir = set_nodata nir0 nir_nodata;
          denominator = np_add green nir;
          ndwi = np_full_like denominator NaN;
          valid_pixels = np_ne0 denominator
      in case np_divide (np_sub (mask_get valid_pixels green) (mask_get valid_pixels nir))
                (mask_get valid_pixels denominator) of
           Inl e \<Rightarrow> Inl e
         | Inr q \<Rightarrow> Inr (mask_set valid_pixels ndwi q))"

definition mndwi_index :: "fl list \<Rightarrow> fl option \<Rightarrow> fl list \<Rightarrow> fl option \<Rightarrow> fault + fl list" where
  "mndwi_index green0 green_nodata swir0 swir_nodata =
     (let green = set_nodata green0 green_nodata;
          swir = set_nodata swir0 swir_nodata;
          denominator = np_add green swir;
          mndwi = np_full_like denominator NaN;
          valid_pixels = np_ne0 denominator
      in case np_divide (np_sub (mask_get valid_pixels green) (mask_get valid_pixels swir))
                (mask_get valid_pixels denominator) of
           Inl e \<Rightarrow> Inl e
         | Inr q \<Rightarrow> Inr (mask_set valid_pixels mndwi q))"

text \<open>
  \<^verbatim>\<open>calculate_multiple_indices\<close> reads four bands once, normalises each against its own
  sentinel and computes NDVI, NDWI and EVI (with G = 2.5, C1 = 6.0, C2 = 7.5, L = 1.0)
  one after the other; a fault in one of them ends the call.
\<close>

record indices =
  ndvi_of :: "fl list"
  ndwi_of :: "fl list"
  evi_of :: "fl list"

definition multiple_indices ::
  "fl list \<Rightarrow> fl option \<Rightarrow> fl list \<Rightarrow> fl option \<Rightarrow> fl list \<Rightarrow> fl option \<Rightarrow>
   fl list \<Rightarrow> fl option \<Rightarrow> fault + indices" where
  "multiple_indices red0 red_nodata nir0 nir_nodata green0 green_nodata blue0 blue_nodata =
     (let red = set_nodata red0 red_nodata;
          nir = set_nodata nir0 nir_nodata;
          green = set_nodata green0 green_nodata;
          blue = set_nodata blue0 blue_nodata;
          ndvi_denom = np_add nir red;
          ndvi = np_full_like ndvi_denom NaN;
          valid_ndvi = np_ne0 ndvi_denom
      in case np_divide (np_sub (mask_get valid_ndvi nir) (mask_get valid_ndvi red))
                (mask_get valid_ndvi ndvi_denom) of
           Inl e \<Rightarrow> Inl e
         | Inr q1 \<Rightarrow>
            (let ndvi = mask_set valid_ndvi ndvi q1;
                 ndwi_denom = np_add green nir;
                 ndwi = np_full_like ndwi_denom NaN;
                 valid_ndwi = np_ne0 ndwi_denom
             in case np_divide (np_sub (mask_get valid_ndwi green) (mask_get valid_ndwi nir))
                       (mask_get valid_ndwi ndwi_denom) of
                  Inl e \<Rightarrow> Inl e
                | Inr q2 \<Rightarrow>
                   (let ndwi = mask_set valid_ndwi ndwi q2;
                        evi_denom =
                          np_shift (np_sub (np_add nir (np_scale 6.0 red)) (np_scale 7.5 blue)) 1.0;
                        evi = np_full_like evi_denom NaN;
                        valid_evi = np_ne0 evi_denom
                    in case np_divide
                              (np_scale 2.5
                                 (np_sub (mask_get valid_evi nir) (mask_get valid_evi red)))
                              (mask_get valid_evi evi_denom) of
                         Inl e \<Rightarrow> Inl e
                       | Inr q3 \<Rightarrow>
                           Inr \<lparr>ndvi_of = ndvi, ndwi_of = ndwi,
                                evi_of = mask_set valid_evi evi q3\<rparr>)))"

section \<open>Datasets, results and effects\<close>

text \<open>
  A dataset is what \<^verbatim>\<open>rasterio.open\<close> hands to the tools: the band count, the shape, for
  every band its raw cells (\<^verbatim>\<open>src.read(b)\<close>) and its cells behind the dataset's validity
  mask (\<^verbatim>\<open>src.read(b, masked=True)\<close>, \<open>None\<close> for a masked cell), the declared sentinels
  \<^verbatim>\<open>src.nodatavals\<close>, the coordinate system and the bounds (left, bottom, right, top).
\<close>

record dataset =
  ds_height :: nat
  ds_width :: nat
  ds_bands :: "fl list list"
  ds_masked :: "real option list list"
  ds_nodatavals :: "fl option list"
  ds_crs :: "string option"
  ds_bounds :: "real list"

definition ds_count :: "dataset \<Rightarrow> int" where
  "ds_count src = int (length (ds_bands src))"

text \<open>Band numbers are 1-based; the tools check them before they read.\<close>

definition ds_read :: "dataset \<Rightarrow> int \<Rightarrow> fl list" where
  "ds_read src b = ds_bands src ! nat (b - 1)"

definition ds_read_masked :: "dataset \<Rightarrow> int \<Rightarrow> real option list" where
  "ds_read_masked src b = ds_masked src ! nat (b - 1)"

definition ds_nodata :: "dataset \<Rightarrow> int \<Rightarrow> fl option" where
  "ds_nodata src b = ds_nodatavals src ! nat (b - 1)"

text \<open>
  The values the tools return (dictionaries keep insertion order), the exceptions they
  raise, and what they do besides returning: opening a file, reading a band, printing to
  standard error. A tool is a function to its outcome and the trace of these events.
\<close>

datatype pyval =
    PNone
  | PBool bool
  | PInt int
  | PFloat fl
  | PStr string
  | PList "pyval list"
  | PDict "(string \<times> pyval) list"

datatype error = FileNotFoundError string | ValueError string

datatype event = Open string | Read int | Stderr string

type_synonym outcome = "(error + pyval) \<times> event list"

definition dict_update :: "(string \<times> pyval) list \<Rightarrow> (string \<times> pyval) list \<Rightarrow> (string \<times> pyval) list" where
  "dict_update d new = fold (\<lambda>(k, v). AList.update k v) new d"

definition digit :: "nat \<Rightarrow> char" where
  "digit n = ''0123456789'' ! n"

fun str_nat :: "nat \<Rightarrow> string" where
  "str_nat n = (if n < 10 then [digit n] else str_nat (n div 10) @ [digit (n mod 10)])"

definition str_int :: "int \<Rightarrow> string" where
  "str_int i = (if i < 0 then CHR ''-'' # str_nat (nat (- i)) else str_nat (nat i))"

text \<open>
  \<^verbatim>\<open>get_wgs84_bounds\<close>. The reprojection \<^verbatim>\<open>transform_bounds\<close> belongs to rasterio; it is a
  parameter \<open>tb\<close> that returns the reprojected bounds or raises (\<open>Inl\<close> with the
  exception's text).
\<close>

type_synonym reproject = "string \<Rightarrow> real list \<Rightarrow> string + real list"

definition get_wgs84_bounds :: "reproject \<Rightarrow> dataset \<Rightarrow> real list \<times> event list" where
  "get_wgs84_bounds tb src =
     (case ds_crs src of
        Some crs \<Rightarrow>
          (case tb crs (ds_bounds src) of
             Inr wgs84_bounds \<Rightarrow> (wgs84_bounds, [])
           | Inl e \<Rightarrow>
               (ds_bounds src,
                [Stderr (''Warning: Could not transform bounds to WGS84: '' @ e)]))
      | None \<Rightarrow> (ds_bounds src, []))"

definition py_bounds :: "real list \<Rightarrow> pyval" where
  "py_bounds bs = PList (map (\<lambda>x. PFloat (Val x)) bs)"

section \<open>Focal statistics and smoothing\<close>

definition handle_nodata :: "fl list \<Rightarrow> fl option \<Rightarrow> fl list" where
  "handle_nodata data nodata_val =
     (case nodata_val of
        None \<Rightarrow> data
      | Some nd \<Rightarrow>
          if \<not> isnan nd then mask_fill (np_eq_scalar data nd) data NaN else data)"

text \<open>The missing-aware reducers \<^verbatim>\<open>np.nanmean\<close>, \<^verbatim>\<open>np.nanmin\<close>, \<^verbatim>\<open>np.nanmax\<close> and
  \<^verbatim>\<open>np.nanstd\<close>: they reduce the cells that are not NaN, and give NaN when there is none.\<close>

fun valid_values :: "fl list \<Rightarrow> real list" where
  "valid_values [] = []"
| "valid_values (Val v # xs) = v # valid_values xs"
| "valid_values (NaN # xs) = valid_values xs"

definition mean :: "real list \<Rightarrow> real" where
  "mean vs = sum_list vs / real (length vs)"

definition std :: "real list \<Rightarrow> real" where
  "std vs = sqrt (mean (map (\<lambda>v. (v - mean vs)\<^sup>2) vs))"

definition nanmean :: "fl list \<Rightarrow> fl" where
  "nanmean xs = (let vs = valid_values xs in if vs = [] then NaN else Val (mean vs))"

definition nanmin :: "fl list \<Rightarrow> fl" where
  "nanmin xs = (let vs = valid_values xs in if vs = [] then NaN else Val (Min (set vs)))"

definition nanmax :: "fl list \<Rightarrow> fl" where
  "nanmax xs = (let vs = valid_values xs in if vs = [] then NaN else Val (Max (set vs)))"

definition nanstd :: "fl list \<Rightarrow> fl" where
  "nanstd xs = (let vs = valid_values xs in if vs = [] then NaN else Val (std vs))"

text \<open>
  \<^verbatim>\<open>scipy.ndimage.generic_filter(data, f, footprint=np.ones((k, k)), mode='reflect')\<close>
  on a grid of \<open>h\<close> rows and \<open>w\<close> columns: the cell in row \<open>i\<close>, column \<open>j\<close> becomes \<open>f\<close> of
  the k-by-k neighbourhood centred on it. A neighbour outside the grid is found by
  reflecting about the edge of the last cell (d c b a | a b c d | d c b a), repeatedly
  when the window is larger than the grid.
\<close>

definition reflect :: "int \<Rightarrow> nat \<Rightarrow> nat" where
  "reflect c len =
     (if len \<le> 1 then 0
      else let sz2 = 2 * int len; m = c mod sz2
           in nat (if m < int len then m else sz2 - 1 - m))"

definition neighbourhood :: "nat \<Rightarrow> nat \<Rightarrow> nat \<Rightarrow> fl list \<Rightarrow> nat \<Rightarrow> nat \<Rightarrow> fl list" where
  "neighbourhood h w k data i j =
     concat (map (\<lambda>di. map (\<lambda>dj.
        data ! (reflect (int i + int di - int (k div 2)) h * w
                  + reflect (int j + int dj - int (k div 2)) w))
        [0..<k]) [0..<k])"

definition generic_filter :: "(fl list \<Rightarrow> fl) \<Rightarrow> nat \<Rightarrow> nat \<Rightarrow> nat \<Rightarrow> fl list \<Rightarrow> fl list" where
  "generic_filter f h w k data =
     map (\<lambda>p. f (neighbourhood h w k data (p div w) (p mod w))) [0..<h * w]"

definition np_any :: "bool list \<Rightarrow> bool" where
  "np_any m = (True \<in> set m)"

definition np_count :: "bool list \<Rightarrow> int" where
  "np_count m = int (length (filter id m))"

definition calculate_filter_stats :: "fl list \<Rightarrow> fl list \<Rightarrow> string \<Rightarrow> (string \<times> pyval) list" where
  "calculate_filter_stats original_data filtered_data filter_name =
     (let valid_original = np_not (np_isnan original_data);
          valid_filtered = np_not (np_isnan filtered_data)
      in [(filter_name @ ''_stats'', PDict
           [(''original_valid_pixels'', PInt (np_count valid_original)),
            (''filtered_valid_pixels'', PInt (np_count valid_filtered)),
            (''min'', if np_any valid_filtered then PFloat (nanmin filtered_data) else PNone),
            (''max'', if np_any valid_filtered then PFloat (nanmax filtered_data) else PNone),
            (''mean'', if np_any valid_filtered then PFloat (nanmean filtered_data) else PNone),
            (''std'', if np_any valid_filtered then PFloat (nanstd filtered_data) else PNone)])])"

text \<open>
  The four focal tools differ in the reducer and in their name only. The path is taken as
  already absolute and resolved, and a file that exists opens as a raster: \<open>fs\<close> maps the
  paths that exist to their datasets.
\<close>

definition focal_tool ::
  "(fl list \<Rightarrow> fl) \<Rightarrow> string \<Rightarrow> reproject \<Rightarrow> (string \<Rightarrow> dataset option) \<Rightarrow>
   string \<Rightarrow> int \<Rightarrow> int \<Rightarrow> outcome" where
  "focal_tool reducer name tb fs path band_number window_size =
     (case fs path of
        None \<Rightarrow> (Inl (FileNotFoundError (''Path not found: '' @ path)), [])
      | Some src \<Rightarrow>
          if window_size \<le> 0 \<or> window_size mod 2 = 0
          then (Inl (ValueError ''Window size must be a positive odd integer.''), [])
          else if \<not> (1 \<le> band_number \<and> band_number \<le> ds_count src)
          then (Inl (ValueError (''Invalid band number. Image has '' @ str_int (ds_count src)
                  @ '' bands.'')), [Open path])
          else
            (let data = handle_nodata (ds_read src band_number) (ds_nodata src band_number);
                 filtered_data =
                   generic_filter reducer (ds_height src) (ds_width src) (nat window_size) data;
                 result = calculate_filter_stats data filtered_data name;
                 (bounds, warned) = get_wgs84_bounds tb src
             in (Inr (PDict (dict_update result
                   [(''file_path'', PStr path),
                    (''band_number'', PInt band_number),
                    (''window_size'', PInt window_size),
                    (''filter_type'', PStr name),
                    (''bounds_wgs84'', py_bounds bounds)])),
                 [Open path, Read band_number] @ warned)))"

definition focal_mean :: "reproject \<Rightarrow> (string \<Rightarrow> dataset option) \<Rightarrow> string \<Rightarrow> int \<Rightarrow> int \<Rightarrow> outcome" where
  "focal_mean = focal_tool nanmean ''focal_mean''"

definition focal_max :: "reproject \<Rightarrow> (string \<Rightarrow> dataset option) \<Rightarrow> string \<Rightarrow> int \<Rightarrow> int \<Rightarrow> outcome" where
  "focal_max = focal_tool nanmax ''focal_max''"

definition focal_min :: "reproject \<Rightarrow> (string \<Rightarrow> dataset option) \<Rightarrow> string \<Rightarrow> int \<Rightarrow> int \<Rightarrow> outcome" where
  "focal_min = focal_tool nanmin ''focal_min''"

definition focal_std :: "reproject \<Rightarrow> (string \<Rightarrow> dataset option) \<Rightarrow> string \<Rightarrow> int \<Rightarrow> int \<Rightarrow> outcome" where
  "focal_std = focal_tool nanstd ''focal_std''"

text \<open>
  Gaussian smoothing. \<^verbatim>\<open>scipy.ndimage.gaussian_filter\<close> is a parameter \<open>gf\<close> (shape,
  sigma and array to array); what the theorems need of it is stated where they use it.
\<close>

type_synonym smoother = "nat \<Rightarrow> nat \<Rightarrow> real \<Rightarrow> fl list \<Rightarrow> fl list"

definition gaussian_filtered :: "smoother \<Rightarrow> nat \<Rightarrow> nat \<Rightarrow> real \<Rightarrow> fl list \<Rightarrow> fl list" where
  "gaussian_filtered gf h w sigma original_data =
     (let valid_mask = np_not (np_isnan original_data);
          filtered_data = np_full_like original_data NaN
      in if np_any valid_mask
         then (let temp_data = original_data;
                   temp_data = mask_fill (np_isnan temp_data) temp_data (nanmean original_data);
                   filtered_temp = gf h w sigma temp_data
               in mask_set valid_mask filtered_data (mask_get valid_mask filtered_temp))
         else filtered_data)"

definition gaussian_smooth ::
  "smoother \<Rightarrow> reproject \<Rightarrow> (string \<Rightarrow> dataset option) \<Rightarrow> string \<Rightarrow> int \<Rightarrow> real \<Rightarrow> outcome" where
  "gaussian_smooth gf tb fs path band_number sigma =
     (case fs path of
        None \<Rightarrow> (Inl (FileNotFoundError (''Path not found: '' @ path)), [])
      | Some src \<Rightarrow>
          if sigma \<le> 0
          then (Inl (ValueError ''Sigma must be positive.''), [])
          else if \<not> (1 \<le> band_number \<and> band_number \<le> ds_count src)
          then (Inl (ValueError (''Invalid band number. Image has '' @ str_int (ds_count src)
                  @ '' bands.'')), [Open path])
          else
            (let original_data =
                   handle_nodata (ds_read src band_number) (ds_nodata src band_number);
                 filtered_data =
                   gaussian_filtered gf (ds_height src) (ds_width src) sigma original_data;
                 result = calculate_filter_stats original_data filtered_data ''gaussian_smooth'';
                 (bounds, warned) = get_wgs84_bounds tb src
             in (Inr (PDict (dict_update result
                   [(''file_path'', PStr path),
                    (''band_number'', PInt band_number),
                    (''sigma'', PFloat (Val sigma)),
                    (''filter_type'', PStr ''gaussian_smooth''),
                    (''bounds_wgs84'', py_bounds bounds)])),
                 [Open path, Read band_number] @ warned)))"

section \<open>Statistics of an index array\<close>

text \<open>\<^verbatim>\<open>np.percentile(a, q)\<close> with the default linear interpolation between the two
  nearest ranks of the sorted values.\<close>

definition percentile :: "real list \<Rightarrow> real \<Rightarrow> real" where
  "percentile vs q =
     (let s = sort vs;
          n = length s;
          h = real (n - 1) * q / 100;
          lo = nat \<lfloor>h\<rfloor>;
          hi = min (lo + 1) (n - 1)
      in s ! lo + (h - real lo) * (s ! hi - s ! lo))"

definition calculate_index_stats :: "fl list \<Rightarrow> string \<Rightarrow> (string \<times> pyval) list" where
  "calculate_index_stats index_array index_name =
     (if list_all isnan index_array
      then [(index_name @ ''_stats'', PDict
              [(''min'', PNone), (''max'', PNone), (''mean'', PNone), (''std'', PNone),
               (''valid_pixels'', PInt 0),
               (''total_pixels'', PInt (int (length index_array)))])]
      else (let valid_mask = np_not (np_isnan index_array);
                valid_data = valid_values index_array
            in [(index_name @ ''_stats'', PDict
                  [(''min'', PFloat (Val (Min (set valid_data)))),
                   (''max'', PFloat (Val (Max (set valid_data)))),
                   (''mean'', PFloat (Val (mean valid_data))),
                   (''std'', PFloat (Val (std valid_data))),
                   (''valid_pixels'', PInt (np_count valid_mask)),
                   (''total_pixels'', PInt (int (length index_array))),
                   (''percentiles'', PDict
                      [(''25'', PFloat (Val (percentile valid_data 25))),
                       (''50'', PFloat (Val (percentile valid_data 50))),
                       (''75'', PFloat (Val (percentile valid_data 75)))])])]))"

section \<open>Band statistics, histogram and unique values\<close>

text \<open>A masked array: \<^verbatim>\<open>data.compressed()\<close> are its valid values in order and
  \<^verbatim>\<open>data.count()\<close> is their number.\<close>

fun compressed :: "real option list \<Rightarrow> real list" where
  "compressed [] = []"
| "compressed (Some v # xs) = v # compressed xs"
| "compressed (None # xs) = compressed xs"

definition ma_count :: "real option list \<Rightarrow> int" where
  "ma_count data = int (length (compressed data))"

text \<open>
  \<^verbatim>\<open>band_statistics\<close>. For a band with a valid cell the statistics are numpy.ma
  reductions (min, max, mean, std, count and three percentiles); they are the parameter
  \<open>ma\<close>, which returns the dictionary or raises. A band without a valid cell never
  reaches them.
\<close>

type_synonym reductions = "real option list \<Rightarrow> error + pyval"

definition empty_stats :: pyval where
  "empty_stats = PDict [(''min'', PNone), (''max'', PNone), (''mean'', PNone),
                        (''std'', PNone), (''count'', PInt 0)]"

fun statistics_loop ::
  "reductions \<Rightarrow> dataset \<Rightarrow> int list \<Rightarrow> (string \<times> pyval) list \<Rightarrow>
   (error + (string \<times> pyval) list) \<times> event list" where
  "statistics_loop ma src [] statistics = (Inr statistics, [])"
| "statistics_loop ma src (band_idx # rest) statistics =
     (let data = ds_read_masked src band_idx
      in case (if ma_count data = 0 then Inr empty_stats else ma data) of
           Inl e \<Rightarrow> (Inl e, [Read band_idx])
         | Inr stats \<Rightarrow>
             (case statistics_loop ma src rest
                     (AList.update (''band_'' @ str_int band_idx) stats statistics) of
                (r, evs) \<Rightarrow> (r, Read band_idx # evs)))"

definition band_statistics ::
  "reductions \<Rightarrow> reproject \<Rightarrow> (string \<Rightarrow> dataset option) \<Rightarrow> string \<Rightarrow> int option \<Rightarrow> outcome" where
  "band_statistics ma tb fs path band_number =
     (case fs path of
        None \<Rightarrow> (Inl (FileNotFoundError (''Path not found: '' @ path)), [])
      | Some src \<Rightarrow>
          (case (case band_number of
                   Some b \<Rightarrow>
                     if \<not> (1 \<le> b \<and> b \<le> ds_count src)
                     then Inl (ValueError (''Invalid band number. Raster has ''
                            @ str_int (ds_count src) @ '' bands.''))
                     else Inr [b]
                 | None \<Rightarrow> Inr [1..ds_count src]) of
             Inl e \<Rightarrow> (Inl e, [Open path])
           | Inr bands_to_process \<Rightarrow>
               (case statistics_loop ma src bands_to_process [] of
                  (Inl e, reads) \<Rightarrow> (Inl e, Open path # reads)
                | (Inr statistics, reads) \<Rightarrow>
                    (let (bounds, warned) = get_wgs84_bounds tb src
                     in (Inr (PDict
                           [(''file_path'', PStr path),
                            (''statistics'', PDict statistics),
                            (''bounds_wgs84'', py_bounds bounds)]),
                         Open path # reads @ warned)))))"

text \<open>
  \<^verbatim>\<open>np.histogram(a, bins=bins)\<close> for an integer \<open>bins\<close>: it raises unless \<open>bins\<close> is
  positive; the range runs from the least to the greatest value (widened by a half on
  both sides when they are equal); the \<open>bins + 1\<close> edges are equally spaced; every bin is
  half-open but the last, which includes its right edge.
\<close>

definition outer_edges :: "real list \<Rightarrow> real \<times> real" where
  "outer_edges a =
     (let (first_edge, last_edge) = (if a = [] then (0, 1) else (Min (set a), Max (set a)))
      in if first_edge = last_edge then (first_edge - 0.5, last_edge + 0.5)
         else (first_edge, last_edge))"

definition linspace :: "real \<Rightarrow> real \<Rightarrow> nat \<Rightarrow> real list" where
  "linspace start stop n = map (\<lambda>i. start + real i * (stop - start) / real n) [0..<n + 1]"

definition in_bin :: "real list \<Rightarrow> nat \<Rightarrow> nat \<Rightarrow> real \<Rightarrow> bool" where
  "in_bin edges n i x =
     (edges ! i \<le> x \<and> (if i = n - 1 then x \<le> edges ! (i + 1) else x < edges ! (i + 1)))"

definition np_histogram :: "real list \<Rightarrow> int \<Rightarrow> error + nat list \<times> real list" where
  "np_histogram a bins =
     (if bins < 1 then Inl (ValueError ''`bins` must be positive, when an integer'')
      else (let n = nat bins;
                (first_edge, last_edge) = outer_edges a;
                bin_edges = linspace first_edge last_edge n
            in Inr (map (\<lambda>i. length (filter (in_bin bin_edges n i) a)) [0..<n], bin_edges)))"

definition histogram_data :: "(string \<Rightarrow> dataset option) \<Rightarrow> string \<Rightarrow> int \<Rightarrow> int \<Rightarrow> outcome" where
  "histogram_data fs path band_number bins =
     (case fs path of
        None \<Rightarrow> (Inl (FileNotFoundError (''Path not found: '' @ path)), [])
      | Some src \<Rightarrow>
          if \<not> (1 \<le> band_number \<and> band_number \<le> ds_count src)
          then (Inl (ValueError (''Invalid band number. Raster has '' @ str_int (ds_count src)
                  @ '' bands.'')), [Open path])
          else
            (let data = ds_read_masked src band_number
             in if ma_count data = 0
                then (Inr (PDict [(''error'', PStr ''No valid data in band''),
                                  (''band_number'', PInt band_number)]),
                      [Open path, Read band_number])
                else
                  (case np_histogram (compressed data) bins of
                     Inl e \<Rightarrow> (Inl e, [Open path, Read band_number])
                   | Inr (hist, bin_edges) \<Rightarrow>
                       (Inr (PDict
                          [(''file_path'', PStr path),
                           (''band_number'', PInt band_number),
                           (''bins'', PInt bins),
                           (''histogram'', PList (map (\<lambda>c. PInt (int c)) hist)),
                           (''bin_edges'', PList (map (\<lambda>e. PFloat (Val e)) bin_edges)),
                           (''total_pixels'', PInt (ma_count data)),
                           (''data_range'', PDict
                              [(''min'', PFloat (Val (Min (set (compressed data))))),
                               (''max'', PFloat (Val (Max (set (compressed data)))))])]),
                        [Open path, Read band_number]))))"

text \<open>
  \<^verbatim>\<open>unique_values\<close>. \<^verbatim>\<open>np.unique(a, return_counts=True)\<close> gives the distinct values in
  ascending order and how often each occurs. \<^verbatim>\<open>np.argsort(counts)\<close> orders the positions
  by count; among equal counts numpy's order is not specified, and the model keeps the
  positions in ascending order there. \<^verbatim>\<open>xs[:k]\<close> is Python's slice, which for a negative
  \<open>k\<close> drops the last \<open>-k\<close> elements. The keys of the result are \<^verbatim>\<open>str(float(val))\<close>, the
  parameter \<open>fmt\<close>.
\<close>

definition np_unique :: "real list \<Rightarrow> real list \<times> nat list" where
  "np_unique a = (let u = sort (remdups a) in (u, map (count_list a) u))"

definition np_argsort :: "nat list \<Rightarrow> nat list" where
  "np_argsort cs = map snd (sort_key fst (zip cs [0..<length cs]))"

definition py_slice_to :: "'a list \<Rightarrow> int \<Rightarrow> 'a list" where
  "py_slice_to xs k = (if 0 \<le> k then take (nat k) xs else take (nat (int (length xs) + k)) xs)"

definition unique_values ::
  "(real \<Rightarrow> string) \<Rightarrow> (string \<Rightarrow> dataset option) \<Rightarrow> string \<Rightarrow> int \<Rightarrow> int \<Rightarrow> outcome" where
  "unique_values fmt fs path band_number max_unique =
     (case fs path of
        None \<Rightarrow> (Inl (FileNotFoundError (''Path not found: '' @ path)), [])
      | Some src \<Rightarrow>
          if \<not> (1 \<le> band_number \<and> band_number \<le> ds_count src)
          then (Inl (ValueError (''Invalid band number. Raster has '' @ str_int (ds_count src)
                  @ '' bands.'')), [Open path])
          else
            (let data = ds_read_masked src band_number
             in if ma_count data = 0
                then (Inr (PDict [(''error'', PStr ''No valid data in band''),
                                  (''band_number'', PInt band_number)]),
                      [Open path, Read band_number])
                else
                  (let (unique_vals, counts) = np_unique (compressed data);
                       (unique_vals, counts, truncated) =
                         (if int (length unique_vals) > max_unique
                          then (let sorted_indices =
                                      py_slice_to (rev (np_argsort counts)) max_unique
                                in (map (\<lambda>i. unique_vals ! i) sorted_indices,
                                    map (\<lambda>i. counts ! i) sorted_indices, True))
                          else (unique_vals, counts, False));
                       value_counts =
                         fold (\<lambda>(val, count). AList.update (fmt val) (PInt (int count)))
                           (zip unique_vals counts) []
                   in (Inr (PDict
                         [(''file_path'', PStr path),
                          (''band_number'', PInt band_number),
                          (''total_unique_values'',
                             PInt (int (length (fst (np_unique (compressed data)))))),
                          (''returned_values'', PInt (int (length value_counts))),
                          (''truncated'', PBool truncated),
                          (''value_counts'', PDict value_counts)]),
                       [Open path, Read band_number]))))"

section \<open>Cell-wise forms of the indices\<close>

text \<open>
  What each index is at one cell, for the proofs: \<open>ratio\<close> is the quotient where the
  divisor is not zero, \<open>guard\<close> is the test \<^verbatim>\<open>denominator != 0\<close> that decides whether the
  cell is written.
\<close>

fun ratio :: "fl \<Rightarrow> fl \<Rightarrow> fl" where
  "ratio (Val a) (Val b) = Val (a / b)"
| "ratio _ _ = NaN"

definition guard :: "fl \<Rightarrow> fl \<Rightarrow> fl" where
  "guard d q = (if fl_ne d (Val 0) then q else NaN)"

definition nd_cell :: "fl \<Rightarrow> fl \<Rightarrow> fl" where
  "nd_cell a b = guard (fl_add a b) (ratio (fl_sub a b) (fl_add a b))"

definition evi_denominator :: "real \<Rightarrow> real \<Rightarrow> real \<Rightarrow> fl \<Rightarrow> fl \<Rightarrow> fl \<Rightarrow> fl" where
  "evi_denominator C1 C2 L r n b =
     fl_add (fl_sub (fl_add n (fl_mul (Val C1) r)) (fl_mul (Val C2) b)) (Val L)"

definition evi_cell :: "real \<Rightarrow> real \<Rightarrow> real \<Rightarrow> real \<Rightarrow> fl \<Rightarrow> fl \<Rightarrow> fl \<Rightarrow> fl" where
  "evi_cell G C1 C2 L r n b =
     guard (evi_denominator C1 C2 L r n b)
       (ratio (fl_mul (Val G) (fl_sub n r)) (evi_denominator C1 C2 L r n b))"

definition savi_denominator :: "real \<Rightarrow> fl \<Rightarrow> fl \<Rightarrow> fl" where
  "savi_denominator L r n = fl_add (fl_add n r) (Val L)"

definition savi_cell :: "real \<Rightarrow> fl \<Rightarrow> fl \<Rightarrow> fl" where
  "savi_cell L r n =
     guard (savi_denominator L r n)
       (fl_mul (ratio (fl_sub n r) (savi_denominator L r n)) (Val (1 + L)))"

section \<open>Properties of the spectral indices\<close>

lemma mask_get_Nil [simp]: "mask_get [] xs = []" "mask_get m [] = []"
  by (simp_all add: mask_get_def)

lemma mask_get_Cons [simp]:
  "mask_get (b # bs) (x # xs) = (if b then x # mask_get bs xs else mask_get bs xs)"
  by (simp add: mask_get_def)

lemma mask_get_map2:
  "length m = length xs \<Longrightarrow> length xs = length ys \<Longrightarrow>
   map2 f (mask_get m xs) (mask_get m ys) = mask_get m (map2 f xs ys)"
  by (induction m xs ys rule: list_induct3) auto

lemma mask_get_map:
  "length m = length xs \<Longrightarrow> map f (mask_get m xs) = mask_get m (map f xs)"
  by (induction m xs rule: list_induct2) auto

lemma fl_div_ratio: "fl_ne d (Val 0) \<Longrightarrow> fl_div n d = Inr (ratio n d)"
  by (cases n; cases d) (auto simp: fl_ne_def)

lemma guarded_division:
  "length num = length den \<Longrightarrow>
   np_divide (mask_get (np_ne0 den) num) (mask_get (np_ne0 den) den)
     = Inr (mask_get (np_ne0 den) (map2 ratio num den))"
  by (induction num den rule: list_induct2)
     (auto simp: np_divide_def np_ne0_def fl_div_ratio)

lemma mask_set_get:
  "length m = length ts \<Longrightarrow> length ts = length vs \<Longrightarrow>
   mask_set m ts (mask_get m vs) = map2 (\<lambda>b (t, v). if b then v else t) m (zip ts vs)"
  by (induction m ts vs rule: list_induct3) auto

lemma mask_set_guard:
  assumes "length qs = length den"
  shows "mask_set (np_ne0 den) (np_full_like den NaN) (mask_get (np_ne0 den) qs)
         = map2 guard den qs"
proof -
  have "length (np_ne0 den) = length (np_full_like den NaN)"
    by (simp add: np_ne0_def np_full_like_def)
  moreover have "length (np_full_like den NaN) = length qs"
    using assms by (simp add: np_full_like_def)
  ultimately show ?thesis
    using assms
    by (simp add: mask_set_get)
       (rule nth_equalityI; simp add: np_ne0_def np_full_like_def guard_def)
qed

lemma length_np [simp]:
  "length (np_add xs ys) = min (length xs) (length ys)"
  "length (np_sub xs ys) = min (length xs) (length ys)"
  "length (np_scale c xs) = length xs"
  "length (np_shift xs c) = length xs"
  "length (np_times xs c) = length xs"
  "length (np_ne0 xs) = length xs"
  by (simp_all add: np_add_def np_sub_def np_scale_def np_shift_def np_times_def np_ne0_def)

lemma length_set_nodata [simp]: "length (set_nodata xs nd) = length xs"
  by (simp add: set_nodata_def mask_fill_def np_eq_scalar_def split: option.splits)

lemma mask_get_np_sub:
  "length m = length xs \<Longrightarrow> length xs = length ys \<Longrightarrow>
   np_sub (mask_get m xs) (mask_get m ys) = mask_get m (np_sub xs ys)"
  by (simp add: np_sub_def mask_get_map2)

lemma mask_get_np_scale:
  "length m = length xs \<Longrightarrow> np_scale c (mask_get m xs) = mask_get m (np_scale c xs)"
  by (simp add: np_scale_def mask_get_map)

lemma mask_get_np_times:
  "length m = length xs \<Longrightarrow> np_times (mask_get m xs) c = mask_get m (np_times xs c)"
  by (simp add: np_times_def mask_get_map)

lemmas index_simps =
  mask_get_np_sub mask_get_np_scale mask_get_np_times guarded_division mask_set_guard

lemma nd_cells:
  assumes "length a = length b"
  shows "map2 guard (np_add a b) (map2 ratio (np_sub a b) (np_add a b))
         = map (\<lambda>i. nd_cell (a ! i) (b ! i)) [0..<length a]"
  using assms by (intro nth_equalityI) (simp_all add: np_sub_def np_add_def nd_cell_def)

lemma ndvi_index_cells:
  assumes "length red0 = length nir0"
  shows "ndvi_index red0 rn nir0 nn
     = Inr (map (\<lambda>i. nd_cell (set_nodata nir0 nn ! i) (set_nodata red0 rn ! i))
              [0..<length red0])"
  unfolding ndvi_index_def Let_def
  using assms nd_cells [of "set_nodata nir0 nn" "set_nodata red0 rn"]
  by (simp add: index_simps)

lemma ndwi_index_cells:
  assumes "length green0 = length nir0"
  shows "ndwi_index green0 gn nir0 nn
     = Inr (map (\<lambda>i. nd_cell (set_nodata green0 gn ! i) (set_nodata nir0 nn ! i))
              [0..<length green0])"
  unfolding ndwi_index_def Let_def
  using assms nd_cells [of "set_nodata green0 gn" "set_nodata nir0 nn"]
  by (simp add: index_simps)

lemma mndwi_index_cells:
  assumes "length green0 = length swir0"
  shows "mndwi_index green0 gn swir0 sn
     = Inr (map (\<lambda>i. nd_cell (set_nodata green0 gn ! i) (set_nodata swir0 sn ! i))
              [0..<length green0])"
  unfolding mndwi_index_def Let_def
  using assms nd_cells [of "set_nodata green0 gn" "set_nodata swir0 sn"]
  by (simp add: index_simps)

lemma evi_cells:
  assumes "length r = length n" "length b = length n"
  shows "map2 guard (np_shift (np_sub (np_add n (np_scale C1 r)) (np_scale C2 b)) L)
           (map2 ratio (np_scale G (np_sub n r))
              (np_shift (np_sub (np_add n (np_scale C1 r)) (np_scale C2 b)) L))
         = map (\<lambda>i. evi_cell G C1 C2 L (r ! i) (n ! i) (b ! i)) [0..<length n]"
  using assms
  by (intro nth_equalityI)
     (simp_all add: np_sub_def np_add_def np_scale_def np_shift_def evi_cell_def evi_denominator_def)

lemma evi_index_cells:
  assumes "length red0 = length nir0" "length blue0 = length nir0"
  shows "evi_index G C1 C2 L red0 rn nir0 nn blue0 bn
     = Inr (map (\<lambda>i. evi_cell G C1 C2 L (set_nodata red0 rn ! i) (set_nodata nir0 nn ! i)
                        (set_nodata blue0 bn ! i)) [0..<length nir0])"
  unfolding evi_index_def Let_def
  using assms evi_cells [of "set_nodata red0 rn" "set_nodata nir0 nn" "set_nodata blue0 bn"]
  by (simp add: index_simps)

lemma savi_cells:
  assumes "length r = length n"
  shows "map2 guard (np_shift (np_add n r) L)
           (np_times (map2 ratio (np_sub n r) (np_shift (np_add n r) L)) (1 + L))
         = map (\<lambda>i. savi_cell L (r ! i) (n ! i)) [0..<length n]"
  using assms
  by (intro nth_equalityI)
     (simp_all add: np_sub_def np_add_def np_times_def np_shift_def savi_cell_def savi_denominator_def)

lemma savi_index_cells:
  assumes "length red0 = length nir0"
  shows "savi_index L red0 rn nir0 nn
     = Inr (map (\<lambda>i. savi_cell L (set_nodata red0 rn ! i) (set_nodata nir0 nn ! i))
              [0..<length nir0])"
  unfolding savi_index_def Let_def
  using assms savi_cells [of "set_nodata red0 rn" "set_nodata nir0 nn"]
  by (simp add: index_simps)

lemma multiple_indices_cells:
  assumes "length red0 = length nir0" "length green0 = length nir0" "length blue0 = length nir0"
  shows "multiple_indices red0 rn nir0 nn green0 gn blue0 bn
     = Inr \<lparr>ndvi_of = map (\<lambda>i. nd_cell (set_nodata nir0 nn ! i) (set_nodata red0 rn ! i))
                        [0..<length nir0],
            ndwi_of = map (\<lambda>i. nd_cell (set_nodata green0 gn ! i) (set_nodata nir0 nn ! i))
                        [0..<length nir0],
            evi_of = map (\<lambda>i. evi_cell 2.5 6.0 7.5 1.0 (set_nodata red0 rn ! i)
                        (set_nodata nir0 nn ! i) (set_nodata blue0 bn ! i)) [0..<length nir0]\<rparr>"
  unfolding multiple_indices_def Let_def
  using assms nd_cells [of "set_nodata nir0 nn" "set_nodata red0 rn"]
    nd_cells [of "set_nodata green0 gn" "set_nodata nir0 nn"]
    evi_cells [of "set_nodata red0 rn" "set_nodata nir0 nn" "set_nodata blue0 bn" "6.0" "7.5" "1.0" "2.5"]
  by (simp add: index_simps)


lemma guard_nan [simp]: "guard NaN q = q"
  by (simp add: guard_def fl_ne_def)

lemma guard_zero [simp]: "guard (Val 0) q = NaN"
  by (simp add: guard_def fl_ne_def)

lemma ratio_nan [simp]: "ratio x NaN = NaN" "ratio NaN y = NaN"
  by (cases x, simp_all)

lemma fl_nan [simp]:
  "fl_add x NaN = NaN" "fl_add NaN y = NaN" "fl_sub x NaN = NaN" "fl_sub NaN y = NaN"
  "fl_mul x NaN = NaN" "fl_mul NaN y = NaN"
  by (cases x, simp_all)+

lemma isnan_iff: "isnan x \<longleftrightarrow> x = NaN"
  by (cases x) simp_all

lemma nd_cell_missing: "isnan a \<or> isnan b \<Longrightarrow> nd_cell a b = NaN"
  by (auto simp: nd_cell_def isnan_iff)

lemma evi_cell_missing: "isnan r \<or> isnan n \<or> isnan b \<Longrightarrow> evi_cell G C1 C2 L r n b = NaN"
  by (auto simp: evi_cell_def evi_denominator_def isnan_iff)

lemma savi_cell_missing: "isnan r \<or> isnan n \<Longrightarrow> savi_cell L r n = NaN"
  by (auto simp: savi_cell_def savi_denominator_def isnan_iff)

text \<open>
  Claim C1. In every spectral-index operation (NDVI, EVI, SAVI, NDWI, MNDWI and the three
  indices of the combined operation), a cell at which a required band is missing (NaN)
  after normalisation is missing in the index: the operation returns an array of the
  bands' size whose cell there is NaN.
\<close>

theorem missing_input_gives_missing_index:
  fixes red0 nir0 green0 blue0 swir0 :: "fl list" and rn nn gn bn sn :: "fl option"
  assumes "length red0 = n" "length nir0 = n" "length green0 = n" "length blue0 = n"
    "length swir0 = n" and "i < n"
  defines "red \<equiv> set_nodata red0 rn" and "nir \<equiv> set_nodata nir0 nn"
    and "green \<equiv> set_nodata green0 gn" and "blue \<equiv> set_nodata blue0 bn"
    and "swir \<equiv> set_nodata swir0 sn"
  shows "(\<exists>out. ndvi_index red0 rn nir0 nn = Inr out \<and> length out = n \<and>
            (isnan (red ! i) \<or> isnan (nir ! i) \<longrightarrow> out ! i = NaN))
       \<and> (\<exists>out. evi_index G C1 C2 L red0 rn nir0 nn blue0 bn = Inr out \<and> length out = n \<and>
            (isnan (red ! i) \<or> isnan (nir ! i) \<or> isnan (blue ! i) \<longrightarrow> out ! i = NaN))
       \<and> (\<exists>out. savi_index L' red0 rn nir0 nn = Inr out \<and> length out = n \<and>
            (isnan (red ! i) \<or> isnan (nir ! i) \<longrightarrow> out ! i = NaN))
       \<and> (\<exists>out. ndwi_index green0 gn nir0 nn = Inr out \<and> length out = n \<and>
            (isnan (green ! i) \<or> isnan (nir ! i) \<longrightarrow> out ! i = NaN))
       \<and> (\<exists>out. mndwi_index green0 gn swir0 sn = Inr out \<and> length out = n \<and>
            (isnan (green ! i) \<or> isnan (swir ! i) \<longrightarrow> out ! i = NaN))
       \<and> (\<exists>r. multiple_indices red0 rn nir0 nn green0 gn blue0 bn = Inr r \<and>
            length (ndvi_of r) = n \<and> length (ndwi_of r) = n \<and> length (evi_of r) = n \<and>
            (isnan (red ! i) \<or> isnan (nir ! i) \<longrightarrow> ndvi_of r ! i = NaN) \<and>
            (isnan (green ! i) \<or> isnan (nir ! i) \<longrightarrow> ndwi_of r ! i = NaN) \<and>
            (isnan (red ! i) \<or> isnan (nir ! i) \<or> isnan (blue ! i) \<longrightarrow> evi_of r ! i = NaN))"
proof (intro conjI)
  show "\<exists>out. ndvi_index red0 rn nir0 nn = Inr out \<and> length out = n \<and>
            (isnan (red ! i) \<or> isnan (nir ! i) \<longrightarrow> out ! i = NaN)"
    using assms by (simp add: ndvi_index_cells nd_cell_missing)
  show "\<exists>out. evi_index G C1 C2 L red0 rn nir0 nn blue0 bn = Inr out \<and> length out = n \<and>
            (isnan (red ! i) \<or> isnan (nir ! i) \<or> isnan (blue ! i) \<longrightarrow> out ! i = NaN)"
    using assms by (simp add: evi_index_cells evi_cell_missing)
  show "\<exists>out. savi_index L' red0 rn nir0 nn = Inr out \<and> length out = n \<and>
            (isnan (red ! i) \<or> isnan (nir ! i) \<longrightarrow> out ! i = NaN)"
    using assms by (simp add: savi_index_cells savi_cell_missing)
  show "\<exists>out. ndwi_index green0 gn nir0 nn = Inr out \<and> length out = n \<and>
            (isnan (green ! i) \<or> isnan (nir ! i) \<longrightarrow> out ! i = NaN)"
    using assms by (simp add: ndwi_index_cells nd_cell_missing)
  show "\<exists>out. mndwi_index green0 gn swir0 sn = Inr out \<and> length out = n \<and>
            (isnan (green ! i) \<or> isnan (swir ! i) \<longrightarrow> out ! i = NaN)"
    using assms by (simp add: mndwi_index_cells nd_cell_missing)
  show "\<exists>r. multiple_indices red0 rn nir0 nn green0 gn blue0 bn = Inr r \<and>
            length (ndvi_of r) = n \<and> length (ndwi_of r) = n \<and> length (evi_of r) = n \<and>
            (isnan (red ! i) \<or> isnan (nir ! i) \<longrightarrow> ndvi_of r ! i = NaN) \<and>
            (isnan (green ! i) \<or> isnan (nir ! i) \<longrightarrow> ndwi_of r ! i = NaN) \<and>
            (isnan (red ! i) \<or> isnan (nir ! i) \<or> isnan (blue ! i) \<longrightarrow> evi_of r ! i = NaN)"
    using assms by (simp add: multiple_indices_cells nd_cell_missing evi_cell_missing)
qed


theorem missing_input_gives_missing_index_witness:
  "isnan (set_nodata [Val 1, Val (- 9999)] (Some (Val (- 9999))) ! 1)
   \<and> isnan (set_nodata [Val 2, NaN] None ! 1)
   \<and> (\<exists>out. ndvi_index [Val 1, Val (- 9999)] (Some (Val (- 9999))) [Val 3, Val 2] None = Inr out
          \<and> length out = 2 \<and> out ! 1 = NaN)
   \<and> (\<exists>out. evi_index 2.5 6 7.5 1 [Val 1, Val (- 9999)] (Some (Val (- 9999))) [Val 3, Val 2] None
               [Val 1, Val 1] None = Inr out \<and> length out = 2 \<and> out ! 1 = NaN)
   \<and> (\<exists>out. savi_index 0.5 [Val 1, Val (- 9999)] (Some (Val (- 9999))) [Val 3, Val 2] None = Inr out
          \<and> length out = 2 \<and> out ! 1 = NaN)
   \<and> (\<exists>out. ndwi_index [Val 2, NaN] None [Val 3, Val 2] None = Inr out
          \<and> length out = 2 \<and> out ! 1 = NaN)
   \<and> (\<exists>out. mndwi_index [Val 2, NaN] None [Val 1, Val 4] None = Inr out
          \<and> length out = 2 \<and> out ! 1 = NaN)
   \<and> (\<exists>r. multiple_indices [Val 1, Val (- 9999)] (Some (Val (- 9999))) [Val 3, Val 2] None
             [Val 2, NaN] None [Val 1, Val 1] None = Inr r
          \<and> length (ndvi_of r) = 2 \<and> length (ndwi_of r) = 2 \<and> length (evi_of r) = 2
          \<and> ndvi_of r ! 1 = NaN \<and> ndwi_of r ! 1 = NaN \<and> evi_of r ! 1 = NaN)"
  using missing_input_gives_missing_index
    [where ?red0.0 = "[Val 1, Val (- 9999)]" and rn = "Some (Val (- 9999))"
       and ?nir0.0 = "[Val 3, Val 2]" and nn = None
       and ?green0.0 = "[Val 2, NaN]" and gn = None
       and ?blue0.0 = "[Val 1, Val 1]" and bn = None
       and ?swir0.0 = "[Val 1, Val 4]" and sn = None
       and n = 2 and i = 1 and G = "2.5" and ?C1.0 = 6 and ?C2.0 = "7.5" and L = 1 and L' = "0.5"]
  by (simp add: set_nodata_def mask_fill_def np_eq_scalar_def)

lemma nd_cell_zero: "fl_add a b = Val 0 \<Longrightarrow> nd_cell a b = NaN"
  by (simp add: nd_cell_def)

lemma evi_cell_zero: "evi_denominator C1 C2 L r n b = Val 0 \<Longrightarrow> evi_cell G C1 C2 L r n b = NaN"
  by (simp add: evi_cell_def)

lemma savi_cell_zero: "savi_denominator L r n = Val 0 \<Longrightarrow> savi_cell L r n = NaN"
  by (simp add: savi_cell_def)

text \<open>
  Claim C3. In every spectral-index operation a cell whose denominator is zero is missing
  in the index, and the operation ends without a fault on every input: no division by
  zero is performed, so neither an infinity nor an error arises. In particular NDVI is
  missing at a cell with RED = 0 and NIR = 0.
\<close>

theorem zero_denominator_gives_missing:
  fixes red0 nir0 green0 blue0 swir0 :: "fl list" and rn nn gn bn sn :: "fl option"
  assumes "length red0 = n" "length nir0 = n" "length green0 = n" "length blue0 = n"
    "length swir0 = n" and "i < n"
  defines "red \<equiv> set_nodata red0 rn" and "nir \<equiv> set_nodata nir0 nn"
    and "green \<equiv> set_nodata green0 gn" and "blue \<equiv> set_nodata blue0 bn"
    and "swir \<equiv> set_nodata swir0 sn"
  shows "(\<exists>out. ndvi_index red0 rn nir0 nn = Inr out \<and> length out = n \<and>
            (fl_add (nir ! i) (red ! i) = Val 0 \<longrightarrow> out ! i = NaN) \<and>
            (red ! i = Val 0 \<and> nir ! i = Val 0 \<longrightarrow> out ! i = NaN))
       \<and> (\<exists>out. evi_index G C1 C2 L red0 rn nir0 nn blue0 bn = Inr out \<and> length out = n \<and>
            (evi_denominator C1 C2 L (red ! i) (nir ! i) (blue ! i) = Val 0 \<longrightarrow> out ! i = NaN))
       \<and> (\<exists>out. savi_index L' red0 rn nir0 nn = Inr out \<and> length out = n \<and>
            (savi_denominator L' (red ! i) (nir ! i) = Val 0 \<longrightarrow> out ! i = NaN))
       \<and> (\<exists>out. ndwi_index green0 gn nir0 nn = Inr out \<and> length out = n \<and>
            (fl_add (green ! i) (nir ! i) = Val 0 \<longrightarrow> out ! i = NaN))
       \<and> (\<exists>out. mndwi_index green0 gn swir0 sn = Inr out \<and> length out = n \<and>
            (fl_add (green ! i) (swir ! i) = Val 0 \<longrightarrow> out ! i = NaN))
       \<and> (\<exists>r. multiple_indices red0 rn nir0 nn green0 gn blue0 bn = Inr r \<and>
            (fl_add (nir ! i) (red ! i) = Val 0 \<longrightarrow> ndvi_of r ! i = NaN) \<and>
            (fl_add (green ! i) (nir ! i) = Val 0 \<longrightarrow> ndwi_of r ! i = NaN) \<and>
            (evi_denominator 6.0 7.5 1.0 (red ! i) (nir ! i) (blue ! i) = Val 0
               \<longrightarrow> evi_of r ! i = NaN))"
proof (intro conjI)
  show "\<exists>out. ndvi_index red0 rn nir0 nn = Inr out \<and> length out = n \<and>
            (fl_add (nir ! i) (red ! i) = Val 0 \<longrightarrow> out ! i = NaN) \<and>
            (red ! i = Val 0 \<and> nir ! i = Val 0 \<longrightarrow> out ! i = NaN)"
    using assms by (simp add: ndvi_index_cells nd_cell_zero)
  show "\<exists>out. evi_index G C1 C2 L red0 rn nir0 nn blue0 bn = Inr out \<and> length out = n \<and>
            (evi_denominator C1 C2 L (red ! i) (nir ! i) (blue ! i) = Val 0 \<longrightarrow> out ! i = NaN)"
    using assms by (simp add: evi_index_cells evi_cell_zero)
  show "\<exists>out. savi_index L' red0 rn nir0 nn = Inr out \<and> length out = n \<and>
            (savi_denominator L' (red ! i) (nir ! i) = Val 0 \<longrightarrow> out ! i = NaN)"
    using assms by (simp add: savi_index_cells savi_cell_zero)
  show "\<exists>out. ndwi_index green0 gn nir0 nn = Inr out \<and> length out = n \<and>
            (fl_add (green ! i) (nir ! i) = Val 0 \<longrightarrow> out ! i = NaN)"
    using assms by (simp add: ndwi_index_cells nd_cell_zero)
  show "\<exists>out. mndwi_index green0 gn swir0 sn = Inr out \<and> length out = n \<and>
            (fl_add (green ! i) (swir ! i) = Val 0 \<longrightarrow> out ! i = NaN)"
    using assms by (simp add: mndwi_index_cells nd_cell_zero)
  show "\<exists>r. multiple_indices red0 rn nir0 nn green0 gn blue0 bn = Inr r \<and>
            (fl_add (nir ! i) (red ! i) = Val 0 \<longrightarrow> ndvi_of r ! i = NaN) \<and>
            (fl_add (green ! i) (nir ! i) = Val 0 \<longrightarrow> ndwi_of r ! i = NaN) \<and>
            (evi_denominator 6.0 7.5 1.0 (red ! i) (nir ! i) (blue ! i) = Val 0
               \<longrightarrow> evi_of r ! i = NaN)"
    using assms by (simp add: multiple_indices_cells nd_cell_zero evi_cell_zero)
qed

theorem zero_denominator_gives_missing_witness:
  "fl_add ([Val 3, Val 0] ! 1) ([Val 1, Val 0] ! 1) = Val 0
   \<and> evi_denominator 6 7.5 1 ([Val 1, Val 0] ! 1) ([Val 3, Val 0] ! 1) ([Val 1, Val (2/15)] ! 1) = Val 0
   \<and> savi_denominator (- 1) ([Val 1, Val 1] ! 1) ([Val 3, Val 0] ! 1) = Val 0
   \<and> (\<exists>out. ndvi_index [Val 1, Val 0] None [Val 3, Val 0] None = Inr out
          \<and> length out = 2 \<and> out ! 1 = NaN)
   \<and> (\<exists>out. evi_index 2.5 6 7.5 1 [Val 1, Val 0] None [Val 3, Val 0] None
               [Val 1, Val (2/15)] None = Inr out \<and> length out = 2 \<and> out ! 1 = NaN)
   \<and> (\<exists>out. savi_index (- 1) [Val 1, Val 1] None [Val 3, Val 0] None = Inr out
          \<and> length out = 2 \<and> out ! 1 = NaN)
   \<and> (\<exists>out. ndwi_index [Val 2, Val 0] None [Val 3, Val 0] None = Inr out
          \<and> length out = 2 \<and> out ! 1 = NaN)
   \<and> (\<exists>out. mndwi_index [Val 2, Val 0] None [Val 1, Val 0] None = Inr out
          \<and> length out = 2 \<and> out ! 1 = NaN)
   \<and> (\<exists>r. multiple_indices [Val 1, Val 0] None [Val 3, Val 0] None
             [Val 2, Val 0] None [Val 1, Val (2/15)] None = Inr r
          \<and> ndvi_of r ! 1 = NaN \<and> ndwi_of r ! 1 = NaN \<and> evi_of r ! 1 = NaN)"
  using zero_denominator_gives_missing
    [where ?red0.0 = "[Val 1, Val 0]" and rn = None
       and ?nir0.0 = "[Val 3, Val 0]" and nn = None
       and ?green0.0 = "[Val 2, Val 0]" and gn = None
       and ?blue0.0 = "[Val 1, Val (2/15)]" and bn = None
       and ?swir0.0 = "[Val 1, Val 0]" and sn = None
       and n = 2 and i = 1 and G = "2.5" and ?C1.0 = 6 and ?C2.0 = "7.5" and L = 1 and L' = 0]
    zero_denominator_gives_missing
    [where ?red0.0 = "[Val 1, Val 1]" and rn = None
       and ?nir0.0 = "[Val 3, Val 0]" and nn = None
       and ?green0.0 = "[Val 2, Val 0]" and gn = None
       and ?blue0.0 = "[Val 1, Val (2/15)]" and bn = None
       and ?swir0.0 = "[Val 1, Val 0]" and sn = None
       and n = 2 and i = 1 and G = "2.5" and ?C1.0 = 6 and ?C2.0 = "7.5" and L = 1 and L' = "- 1"]
  by (simp add: set_nodata_def evi_denominator_def savi_denominator_def)

text \<open>
  Claim C7. At a cell where the RED and NIR values are both at least 0 and not both 0,
  NDVI is (NIR - RED) / (NIR + RED) and lies between -1 and 1.
\<close>

theorem ndvi_bounded:
  assumes "length red0 = length nir0" and "i < length red0"
    and "set_nodata red0 rn ! i = Val r" and "set_nodata nir0 nn ! i = Val n"
    and "0 \<le> r" and "0 \<le> n" and "\<not> (r = 0 \<and> n = 0)"
  shows "\<exists>out. ndvi_index red0 rn nir0 nn = Inr out
           \<and> out ! i = Val ((n - r) / (n + r))
           \<and> - 1 \<le> (n - r) / (n + r) \<and> (n - r) / (n + r) \<le> 1"
proof -
  have pos: "0 < n + r" using assms(5-7) by linarith
  then have "fl_ne (Val (n + r)) (Val 0)" by (simp add: fl_ne_def)
  then have "nd_cell (Val n) (Val r) = Val ((n - r) / (n + r))"
    by (simp add: nd_cell_def guard_def)
  moreover have "- 1 \<le> (n - r) / (n + r)" "(n - r) / (n + r) \<le> 1"
    using pos assms(5,6) by (simp_all add: pos_le_divide_eq pos_divide_le_eq)
  ultimately show ?thesis
    using assms(1-4) by (simp add: ndvi_index_cells)
qed

theorem ndvi_bounded_witness:
  "0 \<le> (100::real) \<and> 0 \<le> (300::real) \<and> \<not> ((100::real) = 0 \<and> (300::real) = 0)
   \<and> (\<exists>out. ndvi_index [Val 100, Val 7] (Some (Val 7)) [Val 300, Val 5] None = Inr out
          \<and> out ! 0 = Val (1 / 2))"
  using ndvi_bounded [where ?red0.0 = "[Val 100, Val 7]" and rn = "Some (Val 7)"
      and ?nir0.0 = "[Val 300, Val 5]" and nn = None and i = 0 and r = 100 and n = 300]
  by (simp add: set_nodata_def mask_fill_def np_eq_scalar_def)

section \<open>Properties of the focal filters and of Gaussian smoothing\<close>

lemma valid_values_empty: "valid_values xs = [] \<longleftrightarrow> (\<forall>c\<in>set xs. c = NaN)"
  by (induction xs rule: valid_values.induct) auto

lemma set_valid_values: "set (valid_values xs) = {v. Val v \<in> set xs}"
  by (induction xs rule: valid_values.induct) auto

lemma reducer_missing:
  "nanmean xs = NaN \<longleftrightarrow> (\<forall>c\<in>set xs. c = NaN)"
  "nanmin xs = NaN \<longleftrightarrow> (\<forall>c\<in>set xs. c = NaN)"
  "nanmax xs = NaN \<longleftrightarrow> (\<forall>c\<in>set xs. c = NaN)"
  "nanstd xs = NaN \<longleftrightarrow> (\<forall>c\<in>set xs. c = NaN)"
  by (simp_all add: nanmean_def nanmin_def nanmax_def nanstd_def Let_def valid_values_empty)




lemma length_generic_filter [simp]: "length (generic_filter f h w k data) = h * w"
  by (simp add: generic_filter_def)




lemma length_neighbourhood [simp]: "length (neighbourhood h w k data i j) = k * k"
  by (simp add: neighbourhood_def length_concat comp_def sum_list_triv)














section \<open>Reprojection of the bounds\<close>

text \<open>
  Claim C6, as amended. For every request whose reprojection of the bounds to WGS84 fails,
  the operation still succeeds: \<^verbatim>\<open>get_wgs84_bounds\<close> returns the bounds in the original
  coordinate system and prints a warning to standard error, and the result of
  \<^verbatim>\<open>focal_mean\<close> carries these bounds as \<^verbatim>\<open>bounds_wgs84\<close>, in a dictionary of the usual
  six fields.
\<close>

theorem reprojection_failure_falls_back:
  assumes "fs path = Some src"
    and "0 < window_size" and "odd window_size"
    and "1 \<le> band_number" and "band_number \<le> ds_count src"
    and "ds_crs src = Some crs" and "tb crs (ds_bounds src) = Inl e"
  shows "get_wgs84_bounds tb src
           = (ds_bounds src, [Stderr (''Warning: Could not transform bounds to WGS84: '' @ e)])
       \<and> (\<exists>d. focal_mean tb fs path band_number window_size
                = (Inr (PDict d),
                   [Open path, Read band_number,
                    Stderr (''Warning: Could not transform bounds to WGS84: '' @ e)])
              \<and> map_of d ''bounds_wgs84'' = Some (py_bounds (ds_bounds src))
              \<and> map fst d = [''focal_mean_stats'', ''file_path'', ''band_number'',
                   ''window_size'', ''filter_type'', ''bounds_wgs84''])"
proof -
  have b: "get_wgs84_bounds tb src
           = (ds_bounds src, [Stderr (''Warning: Could not transform bounds to WGS84: '' @ e)])"
    using assms(6,7) by (simp add: get_wgs84_bounds_def)
  have w: "\<not> (window_size \<le> 0 \<or> window_size mod 2 = 0)"
    using assms(2,3) by (simp add: odd_iff_mod_2_eq_one)
  show ?thesis
    using assms(1,4,5) w b
    by (simp add: focal_mean_def focal_tool_def Let_def calculate_filter_stats_def
        dict_update_def)
qed


theorem reprojection_failure_falls_back_witness:
  "(0::int) < 1 \<and> odd (1::int)
   \<and> (\<exists>d. focal_mean (\<lambda>crs b. Inl ''no transform'')
        [''/data/dem.tif'' \<mapsto> \<lparr>ds_height = 1, ds_width = 2, ds_bands = [[Val 4, Val 6]],
            ds_masked = [[Some 4, Some 6]], ds_nodatavals = [None],
            ds_crs = Some ''EPSG:32633'', ds_bounds = [0, 0, 20, 10]\<rparr>]
        ''/data/dem.tif'' 1 1
       = (Inr (PDict d),
          [Open ''/data/dem.tif'', Read 1,
           Stderr ''Warning: Could not transform bounds to WGS84: no transform''])
      \<and> map_of d ''bounds_wgs84'' = Some (py_bounds [0, 0, 20, 10])
      \<and> map fst d = [''focal_mean_stats'', ''file_path'', ''band_number'',
                   ''window_size'', ''filter_type'', ''bounds_wgs84''])"
  using reprojection_failure_falls_back
      [of "[''/data/dem.tif'' \<mapsto> \<lparr>ds_height = 1, ds_width = 2, ds_bands = [[Val 4, Val 6]],
            ds_masked = [[Some 4, Some 6]], ds_nodatavals = [None],
            ds_crs = Some ''EPSG:32633'', ds_bounds = [0, 0, 20, 10]\<rparr>]"
          "''/data/dem.tif''"
          "\<lparr>ds_height = 1, ds_width = 2, ds_bands = [[Val 4, Val 6]],
            ds_masked = [[Some 4, Some 6]], ds_nodatavals = [None],
            ds_crs = Some ''EPSG:32633'', ds_bounds = [0, 0, 20, 10]\<rparr>"
          1 1 "''EPSG:32633''" "\<lambda>crs b. Inl ''no transform''" "''no transform''"]
  by (simp add: ds_count_def)

text \<open>
  The claim as the specification words it fails: where the reprojection fails, the result
  of \<^verbatim>\<open>focal_mean\<close> has the same six fields as ever, none of them a warning; the
  warning is a line on standard error.
\<close>

theorem reprojection_warning_field_counterexample:
  "focal_mean (\<lambda>crs b. Inl ''projection failed'')
        [''/data/r.tif'' \<mapsto> \<lparr>ds_height = 1, ds_width = 1, ds_bands = [[Val 5]],
            ds_masked = [[Some 5]], ds_nodatavals = [None],
            ds_crs = Some ''EPSG:32633'', ds_bounds = [500000, 0, 500030, 30]\<rparr>]
        ''/data/r.tif'' 1 3
     = (Inr (PDict
          [(''focal_mean_stats'', PDict
             [(''original_valid_pixels'', PInt 1), (''filtered_valid_pixels'', PInt 1),
              (''min'', PFloat (Val 5)), (''max'', PFloat (Val 5)),
              (''mean'', PFloat (Val 5)), (''std'', PFloat (Val 0))]),
           (''file_path'', PStr ''/data/r.tif''),
           (''band_number'', PInt 1),
           (''window_size'', PInt 3),
           (''filter_type'', PStr ''focal_mean''),
           (''bounds_wgs84'', PList [PFloat (Val 500000), PFloat (Val 0),
                                      PFloat (Val 500030), PFloat (Val 30)])]),
        [Open ''/data/r.tif'', Read 1,
         Stderr ''Warning: Could not transform bounds to WGS84: projection failed''])"
  by (simp add: focal_mean_def focal_tool_def Let_def calculate_filter_stats_def
      dict_update_def ds_count_def ds_read_def ds_nodata_def handle_nodata_def
      get_wgs84_bounds_def generic_filter_def neighbourhood_def reflect_def upt_conv_Cons
      np_not_def np_isnan_def np_count_def np_any_def
      nanmin_def nanmax_def nanmean_def nanstd_def mean_def std_def py_bounds_def)

section \<open>Properties of the statistics tools\<close>

lemma compressed_empty: "compressed xs = [] \<longleftrightarrow> (\<forall>c\<in>set xs. c = None)"
  by (induction xs rule: compressed.induct) auto

lemma ma_count_zero: "ma_count xs = 0 \<longleftrightarrow> (\<forall>c\<in>set xs. c = None)"
  by (simp add: ma_count_def compressed_empty)

lemma statistics_loop_all_missing:
  assumes "\<forall>b\<in>set bs. \<forall>c\<in>set (ds_read_masked src b). c = None"
  shows "statistics_loop ma src bs acc
         = (Inr (fold (\<lambda>b. AList.update (''band_'' @ str_int b) empty_stats) bs acc),
            map Read bs)"
  using assms
  by (induction bs arbitrary: acc) (simp_all add: ma_count_zero Let_def)

lemma map_of_fold_update:
  "map_of (fold (\<lambda>b. AList.update (f b) v) bs acc) k
     = (if k \<in> f ` set bs then Some v else map_of acc k)"
  by (induction bs arbitrary: acc) (auto simp: update_conv')

text \<open>
  Claim C8. For a band in which every cell is missing, the statistics summary is returned,
  not raised: its count is 0 and its min, max, mean and std are null. This holds for one
  requested band and for a request of all bands when every band is all-missing; the
  statistics of an all-NaN index array are null in the same way, with 0 valid pixels.
\<close>

theorem all_missing_summary:
  assumes "fs path = Some src"
  shows "(1 \<le> b \<and> b \<le> ds_count src \<and> (\<forall>c\<in>set (ds_read_masked src b). c = None) \<longrightarrow>
            band_statistics ma tb fs path (Some b)
              = (Inr (PDict
                   [(''file_path'', PStr path),
                    (''statistics'', PDict
                       [(''band_'' @ str_int b,
                         PDict [(''min'', PNone), (''max'', PNone), (''mean'', PNone),
                                (''std'', PNone), (''count'', PInt 0)])]),
                    (''bounds_wgs84'', py_bounds (fst (get_wgs84_bounds tb src)))]),
                 [Open path, Read b] @ snd (get_wgs84_bounds tb src)))
       \<and> ((\<forall>b\<in>set [1..ds_count src]. \<forall>c\<in>set (ds_read_masked src b). c = None) \<longrightarrow>
            (\<exists>statistics.
               band_statistics ma tb fs path None
                 = (Inr (PDict
                      [(''file_path'', PStr path),
                       (''statistics'', PDict statistics),
                       (''bounds_wgs84'', py_bounds (fst (get_wgs84_bounds tb src)))]),
                    Open path # map Read [1..ds_count src] @ snd (get_wgs84_bounds tb src))
               \<and> (\<forall>b\<in>set [1..ds_count src].
                     map_of statistics (''band_'' @ str_int b)
                       = Some (PDict [(''min'', PNone), (''max'', PNone), (''mean'', PNone),
                                      (''std'', PNone), (''count'', PInt 0)]))))
       \<and> (list_all isnan index_array \<longrightarrow>
            calculate_index_stats index_array name
              = [(name @ ''_stats'', PDict
                   [(''min'', PNone), (''max'', PNone), (''mean'', PNone), (''std'', PNone),
                    (''valid_pixels'', PInt 0),
                    (''total_pixels'', PInt (int (length index_array)))])])"
proof (intro conjI impI)
  assume "1 \<le> b \<and> b \<le> ds_count src \<and> (\<forall>c\<in>set (ds_read_masked src b). c = None)"
  then show "band_statistics ma tb fs path (Some b)
              = (Inr (PDict
                   [(''file_path'', PStr path),
                    (''statistics'', PDict
                       [(''band_'' @ str_int b,
                         PDict [(''min'', PNone), (''max'', PNone), (''mean'', PNone),
                                (''std'', PNone), (''count'', PInt 0)])]),
                    (''bounds_wgs84'', py_bounds (fst (get_wgs84_bounds tb src)))]),
                 [Open path, Read b] @ snd (get_wgs84_bounds tb src))"
    using assms
    by (simp add: band_statistics_def ma_count_zero Let_def empty_stats_def split: prod.splits)
next
  assume all: "\<forall>b\<in>set [1..ds_count src]. \<forall>c\<in>set (ds_read_masked src b). c = None"
  let ?st = "fold (\<lambda>b. AList.update (''band_'' @ str_int b) empty_stats) [1..ds_count src] []"
  have "band_statistics ma tb fs path None
      = (Inr (PDict
           [(''file_path'', PStr path),
            (''statistics'', PDict ?st),
            (''bounds_wgs84'', py_bounds (fst (get_wgs84_bounds tb src)))]),
         Open path # map Read [1..ds_count src] @ snd (get_wgs84_bounds tb src))"
    using assms statistics_loop_all_missing [OF all, of ma "[]"]
    by (simp add: band_statistics_def Let_def split: prod.splits)
  moreover have "\<forall>b\<in>set [1..ds_count src].
      map_of ?st (''band_'' @ str_int b)
        = Some (PDict [(''min'', PNone), (''max'', PNone), (''mean'', PNone),
                       (''std'', PNone), (''count'', PInt 0)])"
    by (simp add: map_of_fold_update empty_stats_def)
  ultimately show "\<exists>statistics.
               band_statistics ma tb fs path None
                 = (Inr (PDict
                      [(''file_path'', PStr path),
                       (''statistics'', PDict statistics),
                       (''bounds_wgs84'', py_bounds (fst (get_wgs84_bounds tb src)))]),
                    Open path # map Read [1..ds_count src] @ snd (get_wgs84_bounds tb src))
               \<and> (\<forall>b\<in>set [1..ds_count src].
                     map_of statistics (''band_'' @ str_int b)
                       = Some (PDict [(''min'', PNone), (''max'', PNone), (''mean'', PNone),
                                      (''std'', PNone), (''count'', PInt 0)]))"
    by blast
next
  assume "list_all isnan index_array"
  then show "calculate_index_stats index_array name
              = [(name @ ''_stats'', PDict
                   [(''min'', PNone), (''max'', PNone), (''mean'', PNone), (''std'', PNone),
                    (''valid_pixels'', PInt 0),
                    (''total_pixels'', PInt (int (length index_array)))])]"
    by (simp add: calculate_index_stats_def)
qed


theorem all_missing_summary_witness:
  "band_statistics (\<lambda>data. Inl (ValueError ''not reached'')) (\<lambda>crs b. Inr b)
      [''/data/empty.tif'' \<mapsto> \<lparr>ds_height = 1, ds_width = 2,
          ds_bands = [[Val (- 9999), Val (- 9999)], [Val 0, Val 0]],
          ds_masked = [[None, None], [None, None]],
          ds_nodatavals = [Some (Val (- 9999)), Some (Val 0)],
          ds_crs = None, ds_bounds = [0, 0, 2, 1]\<rparr>]
      ''/data/empty.tif'' (Some 1)
    = (Inr (PDict
         [(''file_path'', PStr ''/data/empty.tif''),
          (''statistics'', PDict
             [(''band_1'',
               PDict [(''min'', PNone), (''max'', PNone), (''mean'', PNone),
                      (''std'', PNone), (''count'', PInt 0)])]),
          (''bounds_wgs84'', PList [PFloat (Val 0), PFloat (Val 0), PFloat (Val 2), PFloat (Val 1)])]),
       [Open ''/data/empty.tif'', Read 1])
   \<and> (\<exists>statistics.
        band_statistics (\<lambda>data. Inl (ValueError ''not reached'')) (\<lambda>crs b. Inr b)
          [''/data/empty.tif'' \<mapsto> \<lparr>ds_height = 1, ds_width = 2,
              ds_bands = [[Val (- 9999), Val (- 9999)], [Val 0, Val 0]],
              ds_masked = [[None, None], [None, None]],
              ds_nodatavals = [Some (Val (- 9999)), Some (Val 0)],
              ds_crs = None, ds_bounds = [0, 0, 2, 1]\<rparr>]
          ''/data/empty.tif'' None
        = (Inr (PDict
             [(''file_path'', PStr ''/data/empty.tif''),
              (''statistics'', PDict statistics),
              (''bounds_wgs84'', PList [PFloat (Val 0), PFloat (Val 0), PFloat (Val 2), PFloat (Val 1)])]),
           [Open ''/data/empty.tif'', Read 1, Read 2])
        \<and> map_of statistics ''band_1''
             = Some (PDict [(''min'', PNone), (''max'', PNone), (''mean'', PNone),
                            (''std'', PNone), (''count'', PInt 0)])
        \<and> map_of statistics ''band_2''
             = Some (PDict [(''min'', PNone), (''max'', PNone), (''mean'', PNone),
                            (''std'', PNone), (''count'', PInt 0)]))
   \<and> list_all isnan [NaN, NaN]
   \<and> calculate_index_stats [NaN, NaN] ''ndvi''
        = [(''ndvi_stats'', PDict
             [(''min'', PNone), (''max'', PNone), (''mean'', PNone), (''std'', PNone),
              (''valid_pixels'', PInt 0), (''total_pixels'', PInt 2)])]"
proof -
  let ?src = "\<lparr>ds_height = 1, ds_width = 2,
          ds_bands = [[Val (- 9999), Val (- 9999)], [Val 0, Val 0]],
          ds_masked = [[None, None], [None, None]],
          ds_nodatavals = [Some (Val (- 9999)), Some (Val 0)],
          ds_crs = None, ds_bounds = [0, 0, 2, 1]\<rparr>"
  let ?fs = "[''/data/empty.tif'' \<mapsto> ?src]"
  let ?ma = "\<lambda>data::real option list. Inl (ValueError ''not reached'') :: error + pyval"
  let ?tb = "\<lambda>(crs::string) (b::real list). Inr b :: string + real list"
  have r: "[1..ds_count ?src] = [1, 2]"
    by (simp add: ds_count_def upto.simps)
  have k: "str_int 1 = ''1''" "str_int 2 = ''2''"
    by (simp_all add: str_int_def digit_def)
  have m: "\<forall>b\<in>set [1..ds_count ?src]. \<forall>c\<in>set (ds_read_masked ?src b). c = None"
    unfolding r by (simp add: ds_read_masked_def)
  note T = all_missing_summary [of ?fs "''/data/empty.tif''" ?src 1 ?ma ?tb "[NaN, NaN]" "''ndvi''"]
  have fs: "?fs ''/data/empty.tif'' = Some ?src" by simp
  have A: "band_statistics ?ma ?tb ?fs ''/data/empty.tif'' (Some 1)
    = (Inr (PDict
         [(''file_path'', PStr ''/data/empty.tif''),
          (''statistics'', PDict
             [(''band_1'',
               PDict [(''min'', PNone), (''max'', PNone), (''mean'', PNone),
                      (''std'', PNone), (''count'', PInt 0)])]),
          (''bounds_wgs84'', PList [PFloat (Val 0), PFloat (Val 0), PFloat (Val 2), PFloat (Val 1)])]),
       [Open ''/data/empty.tif'', Read 1])"
    using T [OF fs, THEN conjunct1, THEN mp]
    by (simp add: k py_bounds_def ds_count_def ds_read_masked_def get_wgs84_bounds_def)
  obtain st where B1: "band_statistics ?ma ?tb ?fs ''/data/empty.tif'' None
        = (Inr (PDict
             [(''file_path'', PStr ''/data/empty.tif''),
              (''statistics'', PDict st),
              (''bounds_wgs84'', py_bounds (fst (get_wgs84_bounds ?tb ?src)))]),
           Open ''/data/empty.tif'' # map Read [1..ds_count ?src] @ snd (get_wgs84_bounds ?tb ?src))"
    and B2: "\<forall>b\<in>set [1..ds_count ?src]. map_of st (''band_'' @ str_int b)
        = Some (PDict [(''min'', PNone), (''max'', PNone), (''mean'', PNone),
                       (''std'', PNone), (''count'', PInt 0)])"
    using T [OF fs, THEN conjunct2, THEN conjunct1, THEN mp, OF m] by blast
  have B: "\<exists>statistics.
        band_statistics ?ma ?tb ?fs ''/data/empty.tif'' None
        = (Inr (PDict
             [(''file_path'', PStr ''/data/empty.tif''),
              (''statistics'', PDict statistics),
              (''bounds_wgs84'', PList [PFloat (Val 0), PFloat (Val 0), PFloat (Val 2), PFloat (Val 1)])]),
           [Open ''/data/empty.tif'', Read 1, Read 2])
        \<and> map_of statistics ''band_1''
             = Some (PDict [(''min'', PNone), (''max'', PNone), (''mean'', PNone),
                            (''std'', PNone), (''count'', PInt 0)])
        \<and> map_of statistics ''band_2''
             = Some (PDict [(''min'', PNone), (''max'', PNone), (''mean'', PNone),
                            (''std'', PNone), (''count'', PInt 0)])"
    using B1 B2 unfolding r
    by (intro exI [of _ st]) (simp add: k py_bounds_def get_wgs84_bounds_def)
  have C: "calculate_index_stats [NaN, NaN] ''ndvi''
        = [(''ndvi_stats'', PDict
             [(''min'', PNone), (''max'', PNone), (''mean'', PNone), (''std'', PNone),
              (''valid_pixels'', PInt 0), (''total_pixels'', PInt 2)])]"
    using T [OF fs, THEN conjunct2, THEN conjunct2, THEN mp] by simp
  show ?thesis
    using A B C by simp
qed




















text \<open>
  Claim C5 asks that \<^verbatim>\<open>bins \<le> 0\<close> and \<^verbatim>\<open>max_unique \<le> 0\<close> be rejected before any data
  access. Neither tool checks its parameter. On a band with the values 1, 1, 1, 2, 2, 3,
  \<^verbatim>\<open>unique_values\<close> with \<^verbatim>\<open>max_unique = -1\<close> reads the band and returns two of the three
  values, and with \<^verbatim>\<open>max_unique = 0\<close> it returns none; \<^verbatim>\<open>histogram_data\<close> with
  \<^verbatim>\<open>bins = 0\<close> reads the band before numpy raises, and on a band without valid cells it
  returns the "No valid data in band" result.
\<close>

theorem nonpositive_parameters_not_rejected:
  "unique_values (\<lambda>v. if v = 1 then ''1.0'' else if v = 2 then ''2.0'' else ''3.0'')
      [''/data/u.tif'' \<mapsto> \<lparr>ds_height = 2, ds_width = 3,
          ds_bands = [[Val 1, Val 1, Val 1, Val 2, Val 2, Val 3]],
          ds_masked = [[Some 1, Some 1, Some 1, Some 2, Some 2, Some 3]],
          ds_nodatavals = [None],
          ds_crs = None, ds_bounds = [0, 0, 3, 2]\<rparr>]
      ''/data/u.tif'' 1 (- 1)
    = (Inr (PDict
         [(''file_path'', PStr ''/data/u.tif''),
          (''band_number'', PInt 1),
          (''total_unique_values'', PInt 3),
          (''returned_values'', PInt 2),
          (''truncated'', PBool True),
          (''value_counts'', PDict [(''1.0'', PInt 3), (''2.0'', PInt 2)])]),
       [Open ''/data/u.tif'', Read 1])
   \<and> unique_values (\<lambda>v. if v = 1 then ''1.0'' else if v = 2 then ''2.0'' else ''3.0'')
      [''/data/u.tif'' \<mapsto> \<lparr>ds_height = 2, ds_width = 3,
          ds_bands = [[Val 1, Val 1, Val 1, Val 2, Val 2, Val 3]],
          ds_masked = [[Some 1, Some 1, Some 1, Some 2, Some 2, Some 3]],
          ds_nodatavals = [None],
          ds_crs = None, ds_bounds = [0, 0, 3, 2]\<rparr>]
      ''/data/u.tif'' 1 0
    = (Inr (PDict
         [(''file_path'', PStr ''/data/u.tif''),
          (''band_number'', PInt 1),
          (''total_unique_values'', PInt 3),
          (''returned_values'', PInt 0),
          (''truncated'', PBool True),
          (''value_counts'', PDict [])]),
       [Open ''/data/u.tif'', Read 1])
   \<and> histogram_data
      [''/data/u.tif'' \<mapsto> \<lparr>ds_height = 2, ds_width = 3,
          ds_bands = [[Val 1, Val 1, Val 1, Val 2, Val 2, Val 3]],
          ds_masked = [[Some 1, Some 1, Some 1, Some 2, Some 2, Some 3]],
          ds_nodatavals = [None],
          ds_crs = None, ds_bounds = [0, 0, 3, 2]\<rparr>]
      ''/data/u.tif'' 1 0
    = (Inl (ValueError ''`bins` must be positive, when an integer''),
       [Open ''/data/u.tif'', Read 1])
   \<and> histogram_data
      [''/data/e.tif'' \<mapsto> \<lparr>ds_height = 1, ds_width = 2,
          ds_bands = [[Val 0, Val 0]],
          ds_masked = [[None, None]],
          ds_nodatavals = [Some (Val 0)],
          ds_crs = None, ds_bounds = [0, 0, 2, 1]\<rparr>]
      ''/data/e.tif'' 1 0
    = (Inr (PDict [(''error'', PStr ''No valid data in band''), (''band_number'', PInt 1)]),
       [Open ''/data/e.tif'', Read 1])"
  by (simp add: unique_values_def histogram_data_def np_histogram_def ds_count_def
      ds_read_masked_def ma_count_def np_unique_def np_argsort_def py_slice_to_def Let_def
      upt_conv_Cons)

end
